theory Spec2Isabelle
  imports Main "HOL-Library.Sublist"
begin

section \<open>Data model of \<^verbatim>\<open>src/app/app.py\<close>\<close>

text \<open>
  The application is one Streamlit script. Every user action reruns the script from top
  to bottom with the current widget values; what survives between runs is the table
  \<^verbatim>\<open>users\<close> of \<^verbatim>\<open>users.db\<close> and the dictionary \<^verbatim>\<open>st.session_state\<close>.

  A Python \<^verbatim>\<open>str\<close> is modelled as a \<open>string\<close> (its sequence of characters) and a
  \<^verbatim>\<open>bytes\<close> value as a list of characters too. Equality, concatenation, emptiness and the
  substring test \<^verbatim>\<open>in\<close> are those of lists. What the script takes from outside the
  repository (\<^verbatim>\<open>str.lower\<close>, \<^verbatim>\<open>str.encode\<close>, the \<^verbatim>\<open>bcrypt\<close> functions and the LangChain agent)
  is a parameter of the model, collected in the record \<open>libs\<close>.
\<close>

type_synonym bytes = string

text \<open>
  The row class \<^verbatim>\<open>User\<close> (lines 19-23). The column \<^verbatim>\<open>id\<close> is the field \<open>uid\<close>, since
  \<open>id\<close> is the identity function of HOL.
\<close>

record User =
  uid :: nat
  username :: string
  password :: bytes

text \<open>The values the script stores in \<^verbatim>\<open>st.session_state\<close>, with Python's truth value.\<close>

datatype pyval = PyBool bool | PyStr string

fun truthy :: "pyval \<Rightarrow> bool" where
  "truthy (PyBool b) = b"
| "truthy (PyStr s) = (s \<noteq> [])"

text \<open>
  An exception that leaves the script: a \<^verbatim>\<open>KeyError\<close> of a dictionary read, a
  \<^verbatim>\<open>ValueError\<close> of a \<^verbatim>\<open>bcrypt\<close> call, or whatever the agent call raises. The script has no
  \<^verbatim>\<open>try\<close> statement, so no exception is caught in it.
\<close>

datatype exn = KeyError string | ValueError string | AgentError string

text \<open>
  What a run displays: the calls of \<^verbatim>\<open>st.error\<close>, \<^verbatim>\<open>st.success\<close>, \<^verbatim>\<open>st.warning\<close> and
  \<^verbatim>\<open>st.write\<close>, in order. The styling markup of \<^verbatim>\<open>st.markdown\<close> (the style sheet and the
  titles) carries no outcome and is left out. \<open>st_exception\<close> is the box in which Streamlit
  itself shows an exception that left the script; the script never calls it.
\<close>

datatype element =
    st_error string
  | st_success string
  | st_warning string
  | st_write string
  | st_exception exn

text \<open>The sidebar radio (line 225) and the four buttons of the script.\<close>

datatype page = Login | Register

datatype button = Btn_Login | Btn_Register | Btn_Get_Answer | Btn_Go_to_Veriface

text \<open>
  The widget values of one run. Streamlit reports at most one button as pressed in a run.
\<close>

record inputs =
  choice :: page
  username_input :: string
  password_input :: string
  confirm_password_input :: string
  query_input :: string
  pressed :: "button option"

text \<open>
  The functions the script imports. \<open>gensalt k\<close> is the salt of the \<open>k\<close>-th call of
  \<^verbatim>\<open>bcrypt.gensalt()\<close>. \<^verbatim>\<open>bcrypt.hashpw\<close> and \<^verbatim>\<open>bcrypt.checkpw\<close> raise (\<open>Inl\<close>) or return:
  from version 5.0 on both raise \<^verbatim>\<open>ValueError\<close> for a password of more than 72 bytes, and
  \<^verbatim>\<open>checkpw\<close> raises it for a stored value that is no \<^verbatim>\<open>bcrypt\<close> hash. \<open>agent_run k prompt\<close>
  is what the \<open>k\<close>-th call of \<^verbatim>\<open>assistant_agent.run\<close> does with \<open>prompt\<close>: it raises or
  returns a text.
\<close>

record libs =
  str_lower :: "string \<Rightarrow> string"
  encode_utf8 :: "string \<Rightarrow> bytes"
  gensalt :: "nat \<Rightarrow> bytes"
  hashpw :: "bytes \<Rightarrow> bytes \<Rightarrow> exn + bytes"
  checkpw :: "bytes \<Rightarrow> bytes \<Rightarrow> exn + bool"
  agent_run :: "nat \<Rightarrow> string \<Rightarrow> exn + string"

text \<open>
  The state between runs: the rows of the table in insertion order, the session
  dictionary, the number of salts drawn so far and the prompts sent to the agent so far.
\<close>

record world =
  users :: "User list"
  session_state :: "string \<rightharpoonup> pyval"
  salts_drawn :: nat
  agent_prompts :: "string list"

section \<open>The helper functions\<close>

text \<open>
  \<^verbatim>\<open>hash_password\<close> (lines 33-34). The arguments are evaluated first, so one salt is drawn
  before \<^verbatim>\<open>hashpw\<close> runs; \<^verbatim>\<open>hashpw\<close> then returns the hash or raises.
\<close>

definition hash_password :: "libs \<Rightarrow> string \<Rightarrow> world \<Rightarrow> (exn + bytes) \<times> world" where
  "hash_password L pword w =
     (hashpw L (encode_utf8 L pword) (gensalt L (salts_drawn w)),
      w\<lparr>salts_drawn := Suc (salts_drawn w)\<rparr>)"

text \<open>\<^verbatim>\<open>check_password\<close> (lines 36-37): the answer of \<^verbatim>\<open>checkpw\<close>, or what it raises.\<close>

definition check_password :: "libs \<Rightarrow> bytes \<Rightarrow> string \<Rightarrow> exn + bool" where
  "check_password L hashed_password pword = checkpw L (encode_utf8 L pword) hashed_password"

text \<open>
  \<^verbatim>\<open>session.query(User).filter_by(username=username).first()\<close>: the first row with that
  username, or \<^verbatim>\<open>None\<close>.
\<close>

definition query_first :: "User list \<Rightarrow> string \<Rightarrow> User option" where
  "query_first rows uname = find (\<lambda>r. username r = uname) rows"

text \<open>The integer primary key SQLite gives a new row: one more than the largest in use.\<close>

definition next_uid :: "User list \<Rightarrow> nat" where
  "next_uid rows = Suc (foldr max (map uid rows) 0)"

text \<open>Python's \<^verbatim>\<open>needle in hay\<close> on strings: \<open>needle\<close> starts at some position of \<open>hay\<close>.\<close>

fun str_contains :: "string \<Rightarrow> string \<Rightarrow> bool" where
  "str_contains needle [] = (needle = [])"
| "str_contains needle (c # cs) = (prefix needle (c # cs) \<or> str_contains needle cs)"

section \<open>The three forms\<close>

text \<open>
  \<^verbatim>\<open>register_user\<close> (lines 158-177). \<open>clicked\<close> is the value of \<^verbatim>\<open>st.button("Register")\<close>;
  the parameters \<open>uname\<close>, \<open>pword\<close> and \<open>confirm_password\<close> are the three text inputs. When
  \<^verbatim>\<open>hash_password\<close> raises, the exception leaves the function: no row is added and nothing
  is displayed.
\<close>

definition register_user ::
  "libs \<Rightarrow> bool \<Rightarrow> string \<Rightarrow> string \<Rightarrow> string \<Rightarrow> world \<Rightarrow> world \<times> (exn + element list)" where
  "register_user L clicked uname pword confirm_password w =
     (if clicked then
        (if pword \<noteq> confirm_password then
           (w, Inr [st_error ''Passwords do not match!''])
         else
           (if query_first (users w) uname \<noteq> None then
              (w, Inr [st_error ''Username already exists! Please choose another one.''])
            else
              (let (hashed, w') = hash_password L pword w in
               case hashed of
                 Inl e \<Rightarrow> (w', Inl e)
               | Inr hashed_password \<Rightarrow>
                   (let new_user = \<lparr>uid = next_uid (users w'), username = uname,
                                     password = hashed_password\<rparr>
                    in (w'\<lparr>users := users w' @ [new_user]\<rparr>,
                        Inr [st_success ''Registration successful! Please log in.''])))))
      else (w, Inr []))"

text \<open>
  \<^verbatim>\<open>login_user\<close> (lines 180-193). Python's \<^verbatim>\<open>user and check_password(...)\<close> checks the
  password only when a row was found; when the check raises, the exception leaves the
  function.
\<close>

definition login_user ::
  "libs \<Rightarrow> bool \<Rightarrow> string \<Rightarrow> string \<Rightarrow> world \<Rightarrow> world \<times> (exn + element list)" where
  "login_user L clicked uname pword w =
     (if clicked then
        (case (case query_first (users w) uname of
                 None \<Rightarrow> Inr False
               | Some user \<Rightarrow> check_password L (password user) pword) of
           Inl e \<Rightarrow> (w, Inl e)
         | Inr ok \<Rightarrow>
             (if ok then
                (w\<lparr>session_state :=
                      (session_state w)(''logged_in'' \<mapsto> PyBool True,
                                        ''username'' \<mapsto> PyStr uname)\<rparr>,
                 Inr [st_success ''Login successful!''])
              else (w, Inr [st_error ''Invalid username or password''])))
      else (w, Inr []))"

text \<open>
  \<^verbatim>\<open>assistant_interface\<close> (lines 196-218). The welcome title reads
  \<^verbatim>\<open>st.session_state["username"]\<close>, which raises \<^verbatim>\<open>KeyError\<close> when the key is missing. The
  agent call is not inside any \<^verbatim>\<open>try\<close>: what it raises leaves the function.
\<close>

definition assistant_interface ::
  "libs \<Rightarrow> button option \<Rightarrow> string \<Rightarrow> world \<Rightarrow> world \<times> (exn + element list)" where
  "assistant_interface L btn query w =
     (case session_state w ''username'' of
        None \<Rightarrow> (w, Inl (KeyError ''username''))
      | Some _ \<Rightarrow>
          (if btn = Some Btn_Get_Answer then
             (if query \<noteq> [] then
                (let prompt =
                       (if str_contains ''code'' (str_lower L query)
                           \<or> str_contains ''function'' (str_lower L query)
                           \<or> str_contains ''script'' (str_lower L query)
                        then ''Generate code for the following task: '' @ query
                        else ''Solve this math problem: '' @ query);
                     w' = w\<lparr>agent_prompts := agent_prompts w @ [prompt]\<rparr>
                 in (case agent_run L (length (agent_prompts w)) prompt of
                       Inl e \<Rightarrow> (w', Inl e)
                     | Inr response \<Rightarrow>
                         (w', Inr [st_write ''### Response:'', st_success response])))
              else (w, Inr [st_warning ''Please enter a valid query'']))
           else if btn = Some Btn_Go_to_Veriface then
             (w, Inr [st_write ''[Go to Veriface](https://veriface.streamlit.app)''])
           else (w, Inr [])))"

section \<open>The script\<close>

text \<open>
  Lines 221-222, the session's start: the key \<^verbatim>\<open>logged_in\<close> is set to \<^verbatim>\<open>False\<close> when the
  dictionary does not have it.
\<close>

definition start :: "(string \<rightharpoonup> pyval) \<Rightarrow> (string \<rightharpoonup> pyval)" where
  "start ss = (if ss ''logged_in'' = None then ss(''logged_in'' \<mapsto> PyBool False) else ss)"

text \<open>One run of the script (lines 221-231).\<close>

definition app :: "libs \<Rightarrow> inputs \<Rightarrow> world \<Rightarrow> world \<times> (exn + element list)" where
  "app L i w =
     (let w1 = w\<lparr>session_state := start (session_state w)\<rparr> in
      case session_state w1 ''logged_in'' of
        None \<Rightarrow> (w1, Inl (KeyError ''logged_in''))
      | Some v \<Rightarrow>
          (if \<not> truthy v then
             (case choice i of
                Login \<Rightarrow>
                  login_user L (pressed i = Some Btn_Login)
                    (username_input i) (password_input i) w1
              | Register \<Rightarrow>
                  register_user L (pressed i = Some Btn_Register)
                    (username_input i) (password_input i) (confirm_password_input i) w1)
           else assistant_interface L (pressed i) (query_input i) w1))"

text \<open>
  What the user sees of one run. Streamlit runs the script; an exception that leaves the
  script ends that run only, and Streamlit shows it in an exception box. The state is the
  one the script had reached.
\<close>

definition run_script :: "libs \<Rightarrow> inputs \<Rightarrow> world \<Rightarrow> world \<times> element list" where
  "run_script L i w =
     (case app L i w of
        (w', Inl e) \<Rightarrow> (w', [st_exception e])
      | (w', Inr shown) \<Rightarrow> (w', shown))"

text \<open>
  A sequence of user actions: the script runs once for each, on the state the run before
  left (an exception ends a run, not the session).
\<close>

definition run_all :: "libs \<Rightarrow> inputs list \<Rightarrow> world \<Rightarrow> world" where
  "run_all L acts w = fold (\<lambda>i v. fst (app L i v)) acts w"

text \<open>
  The argument of \<^verbatim>\<open>assistant_agent.run\<close> in lines 207-210, as a function of the query: the
  prompt \<^verbatim>\<open>assistant_interface\<close> sends for it.
\<close>

definition prompt_for :: "libs \<Rightarrow> string \<Rightarrow> string" where
  "prompt_for L query =
     (if str_contains ''code'' (str_lower L query)
         \<or> str_contains ''function'' (str_lower L query)
         \<or> str_contains ''script'' (str_lower L query)
      then ''Generate code for the following task: '' @ query
      else ''Solve this math problem: '' @ query)"

section \<open>The error names of the specification\<close>

text \<open>
  The script raises no exception of its own; each rejection is a displayed message. The
  specification's error names stand for these messages.
\<close>

definition PasswordMismatchError :: element where
  "PasswordMismatchError = st_error ''Passwords do not match!''"

definition DuplicateUsernameError :: element where
  "DuplicateUsernameError = st_error ''Username already exists! Please choose another one.''"

definition InvalidCredentialsError :: element where
  "InvalidCredentialsError = st_error ''Invalid username or password''"

definition EmptyQueryError :: element where
  "EmptyQueryError = st_warning ''Please enter a valid query''"

section \<open>A concrete instance for evaluation\<close>

text \<open>
  A small stand-in for the imported functions, used to evaluate the script at concrete
  inputs: lower-casing of the letters A to Z, the identity as encoding, a hash that puts
  the salt and a separator in front of the password, and an agent that echoes its prompt.
  As \<^verbatim>\<open>bcrypt\<close> 5.0 does, the hash and the check raise \<^verbatim>\<open>ValueError\<close> for a password of
  more than 72 bytes, and the check raises it for a stored value that is no hash (here:
  one without the separator).
\<close>

definition lower_char :: "char \<Rightarrow> char" where
  "lower_char c =
     (case map_of (zip ''ABCDEFGHIJKLMNOPQRSTUVWXYZ'' ''abcdefghijklmnopqrstuvwxyz'') c of
        None \<Rightarrow> c
      | Some d \<Rightarrow> d)"

definition demo_libs :: libs where
  "demo_libs =
     \<lparr>str_lower = map lower_char,
      encode_utf8 = (\<lambda>s. s),
      gensalt = (\<lambda>k. replicate (Suc k) CHR ''s''),
      hashpw = (\<lambda>p s. if 72 < length p then Inl (ValueError ''password too long'')
                        else Inr (s @ ''$'' @ p)),
      checkpw = (\<lambda>p h. if 72 < length p then Inl (ValueError ''password too long'')
                         else if CHR ''$'' \<notin> set h then Inl (ValueError ''Invalid salt'')
                         else Inr (suffix (''$'' @ p) h)),
      agent_run = (\<lambda>k prompt. Inr (''echo: '' @ prompt))\<rparr>"

text \<open>The same functions with an agent that always fails.\<close>

definition failing_libs :: libs where
  "failing_libs = demo_libs\<lparr>agent_run := (\<lambda>k prompt. Inl (AgentError ''provider unavailable''))\<rparr>"

text \<open>The same functions with an agent that fails on one prompt only.\<close>

definition flaky_libs :: libs where
  "flaky_libs =
     demo_libs\<lparr>agent_run :=
       (\<lambda>k prompt. if prompt = ''Solve this math problem: solve 2x+3=7''
                    then Inl (AgentError ''provider unavailable'')
                    else Inr (''echo: '' @ prompt))\<rparr>"

definition empty_world :: world where
  "empty_world = \<lparr>users = [], session_state = Map.empty, salts_drawn = 0, agent_prompts = []\<rparr>"

text \<open>
  A session logged in as alice, the inputs of a registration of alice, and the state after
  that registration on the empty store.
\<close>

definition alice_world :: world where
  "alice_world = empty_world\<lparr>session_state := [''logged_in'' \<mapsto> PyBool True, ''username'' \<mapsto> PyStr ''alice'']\<rparr>"

definition register_alice :: inputs where
  "register_alice =
     \<lparr>choice = Register, username_input = ''alice'', password_input = ''secret'',
      confirm_password_input = ''secret'', query_input = [], pressed = Some Btn_Register\<rparr>"

definition alice_registered :: world where
  "alice_registered = fst (register_user demo_libs True ''alice'' ''secret'' ''secret'' empty_world)"

text \<open>
  A password of 73 bytes, and the inputs of a math query and of a code query in the
  assistant's form.
\<close>

definition long_password :: string where
  "long_password = replicate 73 CHR ''a''"

definition ask_math :: inputs where
  "ask_math =
     \<lparr>choice = Login, username_input = [], password_input = [],
      confirm_password_input = [], query_input = ''solve 2x+3=7'',
      pressed = Some Btn_Get_Answer\<rparr>"

section \<open>Auxiliary facts\<close>

text \<open>
  \<open>str_contains\<close> is the substring relation: the needle occurs between some prefix and some
  suffix of the text.
\<close>

lemma str_contains_iff: "str_contains needle hay \<longleftrightarrow> (\<exists>ps ss. hay = ps @ needle @ ss)"
proof (induction hay)
  case Nil
  show ?case by auto
next
  case (Cons c cs)
  have "(\<exists>ps ss. c # cs = ps @ needle @ ss) \<longleftrightarrow>
        prefix needle (c # cs) \<or> (\<exists>ps ss. cs = ps @ needle @ ss)"
    using sublist_Cons_right [of needle c cs] by (simp add: sublist_def)
  with Cons.IH show ?case by simp
qed

lemma query_first_append:
  "query_first (rows @ rest) uname =
     (case query_first rows uname of None \<Rightarrow> query_first rest uname | Some r \<Rightarrow> Some r)"
  by (induction rows) (simp_all add: query_first_def)

text \<open>The three ways a pressed, confirmed registration ends.\<close>

lemma register_user_fresh:
  "query_first (users w) uname = None \<Longrightarrow>
   hashpw L (encode_utf8 L pword) (gensalt L (salts_drawn w)) = Inr h \<Longrightarrow>
   register_user L True uname pword pword w =
     (w\<lparr>salts_drawn := Suc (salts_drawn w),
        users := users w @ [\<lparr>uid = next_uid (users w), username = uname, password = h\<rparr>]\<rparr>,
      Inr [st_success ''Registration successful! Please log in.''])"
  by (simp add: register_user_def hash_password_def)

lemma register_user_raises:
  "query_first (users w) uname = None \<Longrightarrow>
   hashpw L (encode_utf8 L pword) (gensalt L (salts_drawn w)) = Inl e \<Longrightarrow>
   register_user L True uname pword pword w = (w\<lparr>salts_drawn := Suc (salts_drawn w)\<rparr>, Inl e)"
  by (simp add: register_user_def hash_password_def)

lemma register_user_taken:
  "query_first (users w) uname \<noteq> None \<Longrightarrow>
   register_user L True uname pword pword w =
     (w, Inr [st_error ''Username already exists! Please choose another one.''])"
  by (simp add: register_user_def)

text \<open>After a registration that reported success, the username is in the table.\<close>

lemma register_user_succeeded:
  assumes "snd (register_user L clicked uname pword confirm_password w)
             = Inr [st_success ''Registration successful! Please log in.'']"
  shows "query_first (users (fst (register_user L clicked uname pword confirm_password w))) uname
           \<noteq> None"
proof -
  from assms have c: "clicked" and m: "pword = confirm_password"
    and u: "query_first (users w) uname = None"
    by (auto simp add: register_user_def split: if_splits)
  from c m have eq: "register_user L clicked uname pword confirm_password w
                       = register_user L True uname pword pword w"
    by simp
  have "\<exists>h. hashpw L (encode_utf8 L pword) (gensalt L (salts_drawn w)) = Inr h"
  proof (cases "hashpw L (encode_utf8 L pword) (gensalt L (salts_drawn w))")
    case (Inl e)
    from assms show ?thesis
      by (simp add: eq register_user_raises [OF u Inl])
  next
    case (Inr h)
    then show ?thesis by simp
  qed
  then obtain h where h: "hashpw L (encode_utf8 L pword) (gensalt L (salts_drawn w)) = Inr h"
    by blast
  have "query_first (users (fst (register_user L True uname pword pword w))) uname \<noteq> None"
    using u by (simp add: register_user_fresh [OF u h] query_first_append)
               (simp add: query_first_def)
  then show ?thesis by (simp add: eq)
qed

lemma alice_registered_eq:
  "alice_registered = \<lparr>users = [\<lparr>uid = 1, username = ''alice'', password = ''s$secret''\<rparr>],
      session_state = Map.empty, salts_drawn = 1, agent_prompts = []\<rparr>"
  by (simp add: alice_registered_def register_user_def hash_password_def query_first_def
      next_uid_def empty_world_def demo_libs_def)

lemma assistant_interface_prompt:
  assumes "query \<noteq> []" and "session_state w ''username'' = Some v"
  shows "agent_prompts (fst (assistant_interface L (Some Btn_Get_Answer) query w)) =
           agent_prompts w @
             [if str_contains ''code'' (str_lower L query)
                 \<or> str_contains ''function'' (str_lower L query)
                 \<or> str_contains ''script'' (str_lower L query)
              then ''Generate code for the following task: '' @ query
              else ''Solve this math problem: '' @ query]"
  using assms by (simp add: assistant_interface_def Let_def split: sum.split)

lemma register_user_session:
  "session_state (fst (register_user L clicked uname pword confirm_password w)) = session_state w"
  by (simp add: register_user_def hash_password_def Let_def split: sum.split)

text \<open>
  Only \<^verbatim>\<open>register_user\<close> writes to the table, and the one row it adds holds the hash that
  \<^verbatim>\<open>hashpw\<close> returned for the password that was typed.
\<close>

lemma register_user_rows:
  assumes "r \<in> set (users (fst (register_user L clicked uname pword confirm_password w)))"
  shows "r \<in> set (users w) \<or>
         (username r = uname \<and>
          hashpw L (encode_utf8 L pword) (gensalt L (salts_drawn w)) = Inr (password r))"
  using assms
  by (auto simp add: register_user_def hash_password_def Let_def split: if_splits sum.splits)

lemma login_user_users: "users (fst (login_user L clicked uname pword w)) = users w"
  by (simp add: login_user_def split: sum.split)

lemma assistant_interface_users: "users (fst (assistant_interface L btn query w)) = users w"
  by (simp add: assistant_interface_def Let_def split: option.split sum.split)

lemma app_rows:
  assumes "r \<in> set (users (fst (app L i w)))"
  shows "r \<in> set (users w) \<or>
         (\<exists>k. username r = username_input i \<and>
              hashpw L (encode_utf8 L (password_input i)) (gensalt L k) = Inr (password r))"
proof -
  let ?w1 = "w\<lparr>session_state := start (session_state w)\<rparr>"
  show ?thesis
  proof (cases "session_state ?w1 ''logged_in''")
    case None
    with assms show ?thesis by (simp add: app_def Let_def)
  next
    case (Some v)
    show ?thesis
    proof (cases "truthy v")
      case True
      with Some assms show ?thesis
        by (simp add: app_def Let_def assistant_interface_users)
    next
      case False
      show ?thesis
      proof (cases "choice i")
        case Login
        with False Some assms show ?thesis
          by (simp add: app_def Let_def login_user_users)
      next
        case Register
        with False Some assms
        have "r \<in> set (users (fst (register_user L (pressed i = Some Btn_Register)
                 (username_input i) (password_input i) (confirm_password_input i) ?w1)))"
          by (simp add: app_def Let_def)
        from register_user_rows [OF this] show ?thesis by auto
      qed
    qed
  qed
qed

lemma run_all_rows:
  assumes "r \<in> set (users (run_all L acts w))"
  shows "r \<in> set (users w) \<or>
         (\<exists>i\<in>set acts. \<exists>k. username r = username_input i \<and>
              hashpw L (encode_utf8 L (password_input i)) (gensalt L k) = Inr (password r))"
  using assms
proof (induction acts arbitrary: w)
  case Nil
  then show ?case by (simp add: run_all_def)
next
  case (Cons i acts)
  from Cons.prems have "r \<in> set (users (run_all L acts (fst (app L i w))))"
    by (simp add: run_all_def)
  from Cons.IH [OF this] show ?case
  proof
    assume "r \<in> set (users (fst (app L i w)))"
    from app_rows [OF this] show ?thesis by auto
  next
    assume "\<exists>i\<in>set acts. \<exists>k. username r = username_input i \<and>
              hashpw L (encode_utf8 L (password_input i)) (gensalt L k) = Inr (password r)"
    then show ?thesis by auto
  qed
qed

text \<open>A run of the script on the assistant's form of a logged-in session.\<close>

lemma app_logged_in:
  assumes "session_state w ''logged_in'' = Some lv" and "truthy lv"
  shows "app L i w = assistant_interface L (pressed i) (query_input i) w"
  using assms by (simp add: app_def start_def)

section \<open>The claims\<close>

subsection \<open>Authenticator\<close>

text \<open>
  C1 does not hold for every password: \<^verbatim>\<open>hash_password\<close> is called with no length check
  and outside any \<^verbatim>\<open>try\<close>. With a \<^verbatim>\<open>bcrypt\<close> that refuses passwords of more than 72 bytes,
  registering an unused username with a password of 73 bytes ends with \<^verbatim>\<open>ValueError\<close>: no
  row is stored, no success is displayed, and the login that follows is rejected.
\<close>

theorem register_long_password_raises:
  "register_user demo_libs True ''alice'' long_password long_password empty_world
     = (empty_world\<lparr>salts_drawn := 1\<rparr>, Inl (ValueError ''password too long'')) \<and>
   users (fst (register_user demo_libs True ''alice'' long_password long_password empty_world))
     = [] \<and>
   snd (login_user demo_libs True ''alice'' long_password
          (fst (register_user demo_libs True ''alice'' long_password long_password empty_world)))
     = Inr [InvalidCredentialsError]"
  by (simp add: register_user_def login_user_def hash_password_def query_first_def
      long_password_def empty_world_def demo_libs_def InvalidCredentialsError_def)

text \<open>
  C1, amended: for every username that the Credential Store does not hold yet and every
  password that \<^verbatim>\<open>bcrypt.hashpw\<close> accepts (it returns a hash and does not raise),
  \<open>register(username, password, password)\<close> succeeds and a following
  \<open>login(username, password)\<close> succeeds too, leaving the session authenticated as that
  username. The \<^verbatim>\<open>bcrypt\<close> library is outside the repository; its contract, that
  \<^verbatim>\<open>checkpw\<close> accepts a password against every hash \<^verbatim>\<open>hashpw\<close> returned for it, is a
  hypothesis.
\<close>

theorem register_then_login:
  assumes accepted: "hashpw L (encode_utf8 L pword) (gensalt L (salts_drawn w)) = Inr h"
      and contract: "\<forall>p s h. hashpw L p s = Inr h \<longrightarrow> checkpw L p h = Inr True"
      and unused: "query_first (users w) uname = None"
  shows "snd (register_user L True uname pword pword w)
           = Inr [st_success ''Registration successful! Please log in.''] \<and>
         snd (login_user L True uname pword (fst (register_user L True uname pword pword w)))
           = Inr [st_success ''Login successful!''] \<and>
         session_state (fst (login_user L True uname pword
             (fst (register_user L True uname pword pword w)))) ''logged_in'' = Some (PyBool True) \<and>
         session_state (fst (login_user L True uname pword
             (fst (register_user L True uname pword pword w)))) ''username'' = Some (PyStr uname)"
proof -
  let ?row = "\<lparr>uid = next_uid (users w), username = uname, password = h\<rparr>"
  let ?w1 = "fst (register_user L True uname pword pword w)"
  have reg: "register_user L True uname pword pword w =
     (w\<lparr>salts_drawn := Suc (salts_drawn w), users := users w @ [?row]\<rparr>,
      Inr [st_success ''Registration successful! Please log in.''])"
    using unused accepted by (rule register_user_fresh)
  have found: "query_first (users ?w1) uname = Some ?row"
    using unused by (simp add: reg query_first_append) (simp add: query_first_def)
  have ok: "check_password L (password ?row) pword = Inr True"
    using contract accepted by (simp add: check_password_def)
  have login: "login_user L True uname pword ?w1 =
      (?w1\<lparr>session_state :=
            (session_state ?w1)(''logged_in'' \<mapsto> PyBool True, ''username'' \<mapsto> PyStr uname)\<rparr>,
       Inr [st_success ''Login successful!''])"
    using found ok by (simp add: login_user_def)
  show ?thesis
    by (simp add: login) (simp add: reg)
qed

theorem register_then_login_witness:
  "hashpw demo_libs (encode_utf8 demo_libs ''secret'')
       (gensalt demo_libs (salts_drawn empty_world)) = Inr ''s$secret'' \<and>
   query_first (users empty_world) ''alice'' = None \<and>
   snd (register_user demo_libs True ''alice'' ''secret'' ''secret'' empty_world)
     = Inr [st_success ''Registration successful! Please log in.''] \<and>
   snd (login_user demo_libs True ''alice'' ''secret''
          (fst (register_user demo_libs True ''alice'' ''secret'' ''secret'' empty_world)))
     = Inr [st_success ''Login successful!''] \<and>
   session_state (fst (login_user demo_libs True ''alice'' ''secret''
          (fst (register_user demo_libs True ''alice'' ''secret'' ''secret'' empty_world))))
      ''username'' = Some (PyStr ''alice'')"
proof -
  have a: "hashpw demo_libs (encode_utf8 demo_libs ''secret'')
       (gensalt demo_libs (salts_drawn empty_world)) = Inr ''s$secret''"
    by (simp add: demo_libs_def empty_world_def)
  have c: "\<forall>p s h. hashpw demo_libs p s = Inr h \<longrightarrow> checkpw demo_libs p h = Inr True"
    by (auto simp add: demo_libs_def suffix_def split: if_splits)
  have u: "query_first (users empty_world) ''alice'' = None"
    by (simp add: empty_world_def query_first_def)
  show ?thesis
    using a u register_then_login [OF a c u] by simp
qed

text \<open>
  C2 does not hold for every password: \<^verbatim>\<open>checkpw\<close> runs only when the username exists, and
  what it raises is not caught. With a \<^verbatim>\<open>bcrypt\<close> that refuses passwords of more than 72
  bytes, a login with a 73-byte password ends with \<^verbatim>\<open>ValueError\<close> for a registered username
  and with the message for an unknown one, so the two outcomes differ.
\<close>

theorem login_long_password_differs:
  "login_user demo_libs True ''alice'' long_password alice_registered
     = (alice_registered, Inl (ValueError ''password too long'')) \<and>
   login_user demo_libs True ''nouser'' long_password alice_registered
     = (alice_registered, Inr [InvalidCredentialsError])"
  by (simp add: alice_registered_eq login_user_def check_password_def query_first_def
      long_password_def demo_libs_def InvalidCredentialsError_def)

text \<open>
  C2, amended: a login fails with InvalidCredentialsError when the username is not in the
  store, and when it is there and the password check returns false against the stored
  hash; in these two cases the outcome is the same message on an unchanged state, so it
  does not tell which field was wrong.
\<close>

theorem login_failure_indistinguishable:
  assumes absent: "query_first (users w) u1 = None"
      and found: "query_first (users w) u2 = Some user"
      and wrong: "check_password L (password user) p2 = Inr False"
  shows "login_user L True u1 p1 w = (w, Inr [InvalidCredentialsError]) \<and>
         login_user L True u2 p2 w = (w, Inr [InvalidCredentialsError])"
  using assms by (simp add: login_user_def InvalidCredentialsError_def)

theorem login_failure_indistinguishable_witness:
  "login_user demo_libs True ''nouser'' ''anything'' alice_registered
     = (alice_registered, Inr [InvalidCredentialsError]) \<and>
   login_user demo_libs True ''alice'' ''wrong'' alice_registered
     = (alice_registered, Inr [InvalidCredentialsError])"
proof -
  have a: "query_first (users alice_registered) ''nouser'' = None"
    by (simp add: alice_registered_eq query_first_def)
  have f: "query_first (users alice_registered) ''alice''
       = Some \<lparr>uid = 1, username = ''alice'', password = ''s$secret''\<rparr>"
    by (simp add: alice_registered_eq query_first_def)
  have n: "check_password demo_libs
       (password \<lparr>uid = 1, username = ''alice'', password = ''s$secret''\<rparr>) ''wrong''
       = Inr False"
    by (simp add: check_password_def demo_libs_def suffix_def)
  show ?thesis
    using login_failure_indistinguishable [OF a f n] by simp
qed

text \<open>
  C4: once a username is registered, registering it again (with a confirmed password,
  equal to the first one or not) fails with DuplicateUsernameError. The state is unchanged:
  no row is added, and no salt is drawn, so the password was not hashed.
\<close>

theorem register_twice_duplicate:
  assumes first: "snd (register_user L True uname p1 p1 w)
                    = Inr [st_success ''Registration successful! Please log in.'']"
  shows "register_user L True uname p2 p2 (fst (register_user L True uname p1 p1 w))
           = (fst (register_user L True uname p1 p1 w), Inr [DuplicateUsernameError]) \<and>
         users (fst (register_user L True uname p2 p2 (fst (register_user L True uname p1 p1 w))))
           = users (fst (register_user L True uname p1 p1 w)) \<and>
         salts_drawn (fst (register_user L True uname p2 p2 (fst (register_user L True uname p1 p1 w))))
           = salts_drawn (fst (register_user L True uname p1 p1 w))"
proof -
  let ?w1 = "fst (register_user L True uname p1 p1 w)"
  have "query_first (users ?w1) uname \<noteq> None"
    using first by (rule register_user_succeeded)
  then have "register_user L True uname p2 p2 ?w1 = (?w1, Inr [DuplicateUsernameError])"
    by (simp add: register_user_taken DuplicateUsernameError_def)
  then show ?thesis by simp
qed

theorem register_twice_duplicate_witness:
  "register_user demo_libs True ''alice'' ''other'' ''other''
       (fst (register_user demo_libs True ''alice'' ''secret'' ''secret'' empty_world))
     = (fst (register_user demo_libs True ''alice'' ''secret'' ''secret'' empty_world),
        Inr [DuplicateUsernameError]) \<and>
   register_user demo_libs True ''alice'' ''secret'' ''secret''
       (fst (register_user demo_libs True ''alice'' ''secret'' ''secret'' empty_world))
     = (fst (register_user demo_libs True ''alice'' ''secret'' ''secret'' empty_world),
        Inr [DuplicateUsernameError]) \<and>
   register_user demo_libs True ''alice'' long_password long_password
       (fst (register_user demo_libs True ''alice'' ''secret'' ''secret'' empty_world))
     = (fst (register_user demo_libs True ''alice'' ''secret'' ''secret'' empty_world),
        Inr [DuplicateUsernameError])"
proof -
  have s: "snd (register_user demo_libs True ''alice'' ''secret'' ''secret'' empty_world)
             = Inr [st_success ''Registration successful! Please log in.'']"
    by (simp add: register_user_def hash_password_def query_first_def empty_world_def
        demo_libs_def)
  show ?thesis
    using register_twice_duplicate [OF s, of "''other''"]
      register_twice_duplicate [OF s, of "''secret''"]
      register_twice_duplicate [OF s, of long_password]
    by simp
qed

text \<open>
  C5: for every username and strings \<open>a \<noteq> b\<close>, \<open>register(username, a, b)\<close> fails with
  PasswordMismatchError and the whole state, the Credential Store included, is unchanged.
\<close>

theorem register_password_mismatch:
  "a \<noteq> b \<Longrightarrow> register_user L True uname a b w = (w, Inr [PasswordMismatchError])"
  by (simp add: register_user_def PasswordMismatchError_def)

theorem register_password_mismatch_witness:
  "''a'' \<noteq> ''b'' \<and>
   register_user demo_libs True ''alice'' ''a'' ''b'' empty_world
     = (empty_world, Inr [PasswordMismatchError]) \<and>
   users (fst (register_user demo_libs True ''alice'' ''a'' ''b'' empty_world)) = []"
  using register_password_mismatch [of "''a''" "''b''" demo_libs "''alice''" empty_world]
  by (simp add: empty_world_def)

text \<open>
  C8: after any sequence of runs from an empty store, every row was written by a
  registration of the sequence and holds the hash that \<^verbatim>\<open>bcrypt.hashpw\<close> returned for the
  encoded password typed there, under a salt drawn for it. Given the library's contract
  that \<^verbatim>\<open>hashpw\<close> never returns the password it was given, the stored value differs from
  the encoded plaintext.
\<close>

theorem stored_password_is_hash:
  assumes contract: "\<forall>p s. hashpw L p s \<noteq> Inr p"
      and empty: "users w = []"
      and row: "r \<in> set (users (run_all L acts w))"
  shows "\<exists>i\<in>set acts. \<exists>k.
           username r = username_input i \<and>
           hashpw L (encode_utf8 L (password_input i)) (gensalt L k) = Inr (password r) \<and>
           password r \<noteq> encode_utf8 L (password_input i)"
proof -
  from run_all_rows [OF row] empty
  obtain i k where i: "i \<in> set acts" "username r = username_input i"
      "hashpw L (encode_utf8 L (password_input i)) (gensalt L k) = Inr (password r)"
    by auto
  from i(3) contract have "password r \<noteq> encode_utf8 L (password_input i)"
    by metis
  with i show ?thesis by blast
qed

theorem stored_password_is_hash_witness:
  "(\<forall>p s. hashpw demo_libs p s \<noteq> Inr p) \<and>
   users (run_all demo_libs [register_alice] empty_world)
     = [\<lparr>uid = 1, username = ''alice'', password = ''s$secret''\<rparr>] \<and>
   password \<lparr>uid = 1, username = ''alice'', password = ''s$secret''\<rparr> \<noteq> ''secret''"
proof -
  have c: "\<forall>p s. hashpw demo_libs p s \<noteq> Inr p"
    by (simp add: demo_libs_def)
  have e: "users empty_world = []"
    by (simp add: empty_world_def)
  have u: "users (run_all demo_libs [register_alice] empty_world)
     = [\<lparr>uid = 1, username = ''alice'', password = ''s$secret''\<rparr>]"
    by (simp add: run_all_def app_def start_def register_user_def hash_password_def
        query_first_def next_uid_def register_alice_def empty_world_def demo_libs_def Let_def)
  have r: "\<lparr>uid = 1, username = ''alice'', password = ''s$secret''\<rparr>
       \<in> set (users (run_all demo_libs [register_alice] empty_world))"
    by (simp add: u)
  show ?thesis
    using c u stored_password_is_hash [OF c e r]
    by (simp add: register_alice_def demo_libs_def)
qed

subsection \<open>Session Manager\<close>

text \<open>
  C9: the session's start is idempotent; it leaves a dictionary that has the key
  \<^verbatim>\<open>logged_in\<close> as it is, authenticated or not, and sets the key to \<^verbatim>\<open>False\<close> in one that
  lacks it, changing nothing else.
\<close>

theorem start_idempotent:
  "start (start ss) = start ss \<and>
   (ss ''logged_in'' \<noteq> None \<longrightarrow> start ss = ss) \<and>
   (ss ''logged_in'' = None \<longrightarrow> start ss = ss(''logged_in'' \<mapsto> PyBool False))"
  by (simp add: start_def)

theorem start_idempotent_witness:
  "start (start [''logged_in'' \<mapsto> PyBool True, ''username'' \<mapsto> PyStr ''alice''])
     = start [''logged_in'' \<mapsto> PyBool True, ''username'' \<mapsto> PyStr ''alice''] \<and>
   start [''logged_in'' \<mapsto> PyBool True, ''username'' \<mapsto> PyStr ''alice'']
     = [''logged_in'' \<mapsto> PyBool True, ''username'' \<mapsto> PyStr ''alice''] \<and>
   start (start Map.empty) = start Map.empty \<and>
   start Map.empty = [''logged_in'' \<mapsto> PyBool False]"
  using start_idempotent [of "[''logged_in'' \<mapsto> PyBool True, ''username'' \<mapsto> PyStr ''alice'']"]
    start_idempotent [of Map.empty]
  by (simp add: start_def)

text \<open>
  C10: \<^verbatim>\<open>register_user\<close> never writes to the session dictionary, whatever its outcome. A run
  of the script on the Register page of an unauthenticated session therefore leaves the
  dictionary as it was, but for \<^verbatim>\<open>logged_in\<close> set to \<^verbatim>\<open>False\<close> by the start: the key
  \<^verbatim>\<open>username\<close> stays as it was (missing in a fresh session) and a login is still needed.
\<close>

theorem register_keeps_session:
  "session_state (fst (register_user L clicked uname pword confirm_password w)) = session_state w \<and>
   (choice i = Register \<longrightarrow>
    (session_state w ''logged_in'' = None \<or> session_state w ''logged_in'' = Some (PyBool False)) \<longrightarrow>
    session_state (fst (app L i w)) = (session_state w)(''logged_in'' \<mapsto> PyBool False))"
  by (auto simp add: register_user_session app_def start_def Let_def)

theorem register_keeps_session_witness:
  "session_state (fst (register_user demo_libs True ''alice'' ''secret'' ''secret'' empty_world))
     = session_state empty_world \<and>
   session_state (fst (app demo_libs register_alice empty_world)) = [''logged_in'' \<mapsto> PyBool False] \<and>
   session_state (fst (app demo_libs register_alice empty_world)) ''username'' = None"
  using register_keeps_session [of demo_libs True "''alice''" "''secret''" "''secret''" empty_world
      register_alice]
  by (simp add: register_alice_def empty_world_def)

subsection \<open>Assistant Router\<close>

text \<open>
  C3: for every non-empty query of a logged-in session, pressing Get Answer sends exactly
  one prompt to the agent: \<open>Generate code for the following task: \<close> followed by the
  query when the lower-cased query has \<open>code\<close>, \<open>function\<close> or \<open>script\<close> as a substring, and
  \<open>Solve this math problem: \<close> followed by the query otherwise. The query is embedded as
  it was typed.
\<close>

theorem route_classification:
  assumes nonempty: "query \<noteq> []"
      and user: "session_state w ''username'' = Some v"
  shows "agent_prompts (fst (assistant_interface L (Some Btn_Get_Answer) query w)) =
           agent_prompts w @
             [if (\<exists>ps ss. str_lower L query = ps @ ''code'' @ ss)
                 \<or> (\<exists>ps ss. str_lower L query = ps @ ''function'' @ ss)
                 \<or> (\<exists>ps ss. str_lower L query = ps @ ''script'' @ ss)
              then ''Generate code for the following task: '' @ query
              else ''Solve this math problem: '' @ query]"
  using assistant_interface_prompt [OF nonempty user, of L]
  unfolding str_contains_iff .

theorem route_classification_witness:
  "agent_prompts (fst (assistant_interface demo_libs (Some Btn_Get_Answer)
       ''write a function to sort a list'' alice_world))
     = [''Generate code for the following task: write a function to sort a list''] \<and>
   agent_prompts (fst (assistant_interface demo_libs (Some Btn_Get_Answer)
       ''solve 2x+3=7'' alice_world))
     = [''Solve this math problem: solve 2x+3=7'']"
proof -
  have u: "session_state alice_world ''username'' = Some (PyStr ''alice'')"
    by (simp add: alice_world_def empty_world_def)
  have l1: "str_lower demo_libs ''write a function to sort a list'' = ''write a function to sort a list''"
    by (simp add: demo_libs_def lower_char_def)
  have l2: "str_lower demo_libs ''solve 2x+3=7'' = ''solve 2x+3=7''"
    by (simp add: demo_libs_def lower_char_def)
  have p: "agent_prompts alice_world = []"
    by (simp add: alice_world_def empty_world_def)
  have n1: "''write a function to sort a list'' \<noteq> []" by simp
  have n2: "''solve 2x+3=7'' \<noteq> []" by simp
  have a: "agent_prompts (fst (assistant_interface demo_libs (Some Btn_Get_Answer)
       ''write a function to sort a list'' alice_world)) =
     agent_prompts alice_world @
       [if str_contains ''code'' (str_lower demo_libs ''write a function to sort a list'')
           \<or> str_contains ''function'' (str_lower demo_libs ''write a function to sort a list'')
           \<or> str_contains ''script'' (str_lower demo_libs ''write a function to sort a list'')
        then ''Generate code for the following task: '' @ ''write a function to sort a list''
        else ''Solve this math problem: '' @ ''write a function to sort a list'']"
    unfolding str_contains_iff by (rule route_classification [OF n1 u])
  have b: "agent_prompts (fst (assistant_interface demo_libs (Some Btn_Get_Answer)
       ''solve 2x+3=7'' alice_world)) =
     agent_prompts alice_world @
       [if str_contains ''code'' (str_lower demo_libs ''solve 2x+3=7'')
           \<or> str_contains ''function'' (str_lower demo_libs ''solve 2x+3=7'')
           \<or> str_contains ''script'' (str_lower demo_libs ''solve 2x+3=7'')
        then ''Generate code for the following task: '' @ ''solve 2x+3=7''
        else ''Solve this math problem: '' @ ''solve 2x+3=7'']"
    unfolding str_contains_iff by (rule route_classification [OF n2 u])
  show ?thesis
    by (simp add: a b l1 l2 p)
qed

text \<open>
  C6 does not hold for blank queries: the guard \<^verbatim>\<open>if query:\<close> tests emptiness only. A query
  of three spaces is not rejected; it is sent to the agent as a math problem.
\<close>

theorem blank_query_forwarded:
  "snd (assistant_interface demo_libs (Some Btn_Get_Answer) ''   '' alice_world)
     \<noteq> Inr [EmptyQueryError] \<and>
   agent_prompts (fst (assistant_interface demo_libs (Some Btn_Get_Answer) ''   '' alice_world))
     = [''Solve this math problem:    '']"
  by (simp add: assistant_interface_def alice_world_def empty_world_def demo_libs_def
      lower_char_def Let_def EmptyQueryError_def)

text \<open>
  C6, amended: the empty query is rejected with EmptyQueryError on an unchanged state (no
  prompt is sent to the agent), and it is the only query that is rejected so.
\<close>

theorem empty_query_rejected:
  assumes user: "session_state w ''username'' = Some v"
  shows "assistant_interface L (Some Btn_Get_Answer) [] w = (w, Inr [EmptyQueryError]) \<and>
         (\<forall>query. (snd (assistant_interface L (Some Btn_Get_Answer) query w)
                     = Inr [EmptyQueryError]) = (query = []))"
  using user
  by (simp add: assistant_interface_def Let_def EmptyQueryError_def split: sum.split)

theorem empty_query_rejected_witness:
  "assistant_interface demo_libs (Some Btn_Get_Answer) [] alice_world
     = (alice_world, Inr [EmptyQueryError]) \<and>
   agent_prompts (fst (assistant_interface demo_libs (Some Btn_Get_Answer) [] alice_world)) = []"
proof -
  have u: "session_state alice_world ''username'' = Some (PyStr ''alice'')"
    by (simp add: alice_world_def empty_world_def)
  have p: "agent_prompts alice_world = []"
    by (simp add: alice_world_def empty_world_def)
  show ?thesis
    using empty_query_rejected [OF u, of demo_libs] by (simp add: p)
qed

text \<open>
  C7 does not hold as stated: the agent call stands in no \<^verbatim>\<open>try\<close>, so the router does not
  recover a failure of the agent or turn it into a message of its own. The exception
  leaves \<^verbatim>\<open>assistant_interface\<close> as it is; what the user sees is the exception box of
  Streamlit, not an error message of the application.
\<close>

theorem agent_failure_uncaught:
  "assistant_interface failing_libs (Some Btn_Get_Answer) ''solve 2x+3=7'' alice_world
     = (alice_world\<lparr>agent_prompts := [''Solve this math problem: solve 2x+3=7'']\<rparr>,
        Inl (AgentError ''provider unavailable'')) \<and>
   run_script failing_libs ask_math alice_world
     = (alice_world\<lparr>agent_prompts := [''Solve this math problem: solve 2x+3=7'']\<rparr>,
        [st_exception (AgentError ''provider unavailable'')])"
  by (simp add: run_script_def app_def start_def assistant_interface_def ask_math_def
      alice_world_def empty_world_def failing_libs_def demo_libs_def lower_char_def Let_def)

text \<open>
  C7, amended: for every non-empty query of a logged-in session, when the call of the agent
  with the prompt built for the query fails, the exception it raised leaves
  \<^verbatim>\<open>assistant_interface\<close> unchanged and uncaught, after exactly one call of the agent (no
  retry, no fallback) and with nothing else of the state changed. It ends that run of the
  script only: the user is shown the exception, and the session goes on from the state
  the run left.
\<close>

theorem agent_failure_propagates:
  assumes nonempty: "query_input i \<noteq> []"
      and button: "pressed i = Some Btn_Get_Answer"
      and logged: "session_state w ''logged_in'' = Some lv"
      and authed: "truthy lv"
      and user: "session_state w ''username'' = Some v"
      and fails: "agent_run L (length (agent_prompts w)) (prompt_for L (query_input i)) = Inl e"
  shows "assistant_interface L (pressed i) (query_input i) w
           = (w\<lparr>agent_prompts := agent_prompts w @ [prompt_for L (query_input i)]\<rparr>, Inl e) \<and>
         run_script L i w
           = (w\<lparr>agent_prompts := agent_prompts w @ [prompt_for L (query_input i)]\<rparr>,
              [st_exception e]) \<and>
         run_all L (i # rest) w
           = run_all L rest (w\<lparr>agent_prompts := agent_prompts w @ [prompt_for L (query_input i)]\<rparr>)"
proof -
  let ?w' = "w\<lparr>agent_prompts := agent_prompts w @ [prompt_for L (query_input i)]\<rparr>"
  have a: "assistant_interface L (pressed i) (query_input i) w = (?w', Inl e)"
    using nonempty button user fails
    by (simp add: assistant_interface_def Let_def prompt_for_def)
  have b: "app L i w = (?w', Inl e)"
    using logged authed a by (simp add: app_logged_in)
  show ?thesis
    by (simp add: a b run_script_def run_all_def)
qed

theorem agent_failure_propagates_witness:
  "agent_run flaky_libs 0 ''write a script'' = Inr ''echo: write a script'' \<and>
   assistant_interface flaky_libs (Some Btn_Get_Answer) ''solve 2x+3=7'' alice_world
     = (alice_world\<lparr>agent_prompts := [''Solve this math problem: solve 2x+3=7'']\<rparr>,
        Inl (AgentError ''provider unavailable'')) \<and>
   run_script flaky_libs ask_math alice_world
     = (alice_world\<lparr>agent_prompts := [''Solve this math problem: solve 2x+3=7'']\<rparr>,
        [st_exception (AgentError ''provider unavailable'')])"
proof -
  have n: "query_input ask_math \<noteq> []" by (simp add: ask_math_def)
  have b: "pressed ask_math = Some Btn_Get_Answer" by (simp add: ask_math_def)
  have l: "session_state alice_world ''logged_in'' = Some (PyBool True)"
    by (simp add: alice_world_def empty_world_def)
  have t: "truthy (PyBool True)" by simp
  have u: "session_state alice_world ''username'' = Some (PyStr ''alice'')"
    by (simp add: alice_world_def empty_world_def)
  have p: "prompt_for flaky_libs (query_input ask_math) = ''Solve this math problem: solve 2x+3=7''"
    by (simp add: prompt_for_def ask_math_def flaky_libs_def demo_libs_def lower_char_def)
  have f: "agent_run flaky_libs (length (agent_prompts alice_world))
             (prompt_for flaky_libs (query_input ask_math))
           = Inl (AgentError ''provider unavailable'')"
    by (simp add: p) (simp add: flaky_libs_def)
  have g: "agent_prompts alice_world = []"
    by (simp add: alice_world_def empty_world_def)
  have q: "query_input ask_math = ''solve 2x+3=7''" by (simp add: ask_math_def)
  have p2: "prompt_for flaky_libs ''solve 2x+3=7'' = ''Solve this math problem: solve 2x+3=7''"
    using p by (simp add: q)
  have e: "agent_run flaky_libs 0 ''write a script'' = Inr ''echo: write a script''"
    by (simp add: flaky_libs_def)
  show ?thesis
    using agent_failure_propagates [OF n b l t u f, of "[]"]
    by (simp add: p2 g b q e)
qed

end
